theory Spec2Isabelle
  imports Main "HOL-Library.Sublist"
begin

section \<open>The ownCloud storage adapter (\<open>addon_imps/storage/owncloud.py\<close>)\<close>

text \<open>
  The adapter translates the generic storage-addon operations into WebDAV \<open>PROPFIND\<close>
  requests and turns the multistatus answers into items. This theory embeds the module
  function by function and proves the properties its specification states.

  Python strings are modelled as \<^typ>\<open>string\<close>, the bytes of their UTF-8 encoding. Every
  string operation the module uses (stripping \<open>/\<close>, splitting at \<open>/\<close> or \<open>:\<close>,
  \<open>startswith\<close>, slicing off a prefix by its length, concatenation, tests for emptiness)
  acts on an ASCII delimiter or on a whole prefix, so it commutes with that encoding.
\<close>

subsection \<open>Exceptions\<close>

text \<open>
  The module raises \<open>ValueError\<close> with a message for every failure of its own;
  \<open>xml.etree.ElementTree.fromstring\<close> raises \<open>ParseError\<close> (a \<open>SyntaxError\<close>, so
  that \<open>except ValueError\<close> does not catch it); whatever the network collaborator raises
  is \<open>TransportError\<close>. The kinds the specification names are the \<open>ValueError\<close>s
  of the module: \<open>MissingUsername\<close>, \<open>ItemNotFound\<close> and \<open>PropertyNotFound\<close> by their
  messages, \<open>InvalidItemId\<close> the ones Python raises inside \<open>_parse_item_id\<close>.
\<close>

datatype error =
    ValueError string
  | ParseError
  | TransportError string

fun is_ValueError :: "error \<Rightarrow> bool" where
  "is_ValueError (ValueError msg) = True"
| "is_ValueError ParseError = False"
| "is_ValueError (TransportError msg) = False"

subsection \<open>The string methods the module calls\<close>

definition lstrip :: "string \<Rightarrow> string \<Rightarrow> string" where
  \<comment> \<open>\<open>s.lstrip(chars)\<close>\<close>
  "lstrip chars s = dropWhile (\<lambda>c. c \<in> set chars) s"

definition rstrip :: "string \<Rightarrow> string \<Rightarrow> string" where
  \<comment> \<open>\<open>s.rstrip(chars)\<close>\<close>
  "rstrip chars s = rev (dropWhile (\<lambda>c. c \<in> set chars) (rev s))"

definition strip :: "string \<Rightarrow> string \<Rightarrow> string" where
  \<comment> \<open>\<open>s.strip(chars)\<close>\<close>
  "strip chars s = rstrip chars (lstrip chars s)"

fun str_split :: "char \<Rightarrow> string \<Rightarrow> string list" where
  \<comment> \<open>\<open>s.split(sep)\<close> for a separator of one character: never an empty list\<close>
  "str_split sep [] = [ [] ]"
| "str_split sep (c # cs) =
     (if c = sep then [] # str_split sep cs
      else (c # hd (str_split sep cs)) # tl (str_split sep cs))"

definition str_split1 :: "char \<Rightarrow> string \<Rightarrow> string list" where
  \<comment> \<open>\<open>s.split(sep, maxsplit=1)\<close>: one piece without the separator, else two\<close>
  "str_split1 sep s =
     (if sep \<in> set s
      then [takeWhile (\<lambda>c. c \<noteq> sep) s, tl (dropWhile (\<lambda>c. c \<noteq> sep) s)]
      else [s])"

definition startswith :: "string \<Rightarrow> string \<Rightarrow> bool" where
  \<comment> \<open>\<open>s.startswith(p)\<close>\<close>
  "startswith s p = prefix p s"

fun truthy :: "string option \<Rightarrow> bool" where
  \<comment> \<open>the truth value of a \<open>str | None\<close>: \<open>None\<close> and \<open>""\<close> are false\<close>
  "truthy None = False"
| "truthy (Some s) = (s \<noteq> [])"

definition py_or :: "string option \<Rightarrow> string option \<Rightarrow> string option" where
  \<comment> \<open>\<open>a or b\<close>\<close>
  "py_or a b = (if truthy a then a else b)"

subsection \<open>Item types and item results (\<open>addon_toolkit.interfaces.storage\<close>)\<close>

text \<open>
  Modelled from the spec: the declaration of the enum \<open>ItemType\<close> is in
  the package \<open>addon_toolkit\<close>, not in the module. The specification gives its members
  (\<open>FILE\<close>, \<open>FOLDER\<close>) and the wire format of an item identifier,
  \<open>"{folder|file}:{slash-delimited path}"\<close>, hence the two values. \<open>ItemType_call\<close> is
  the lookup by value, \<open>ItemType(token)\<close>, which raises \<open>ValueError\<close> for a string
  that is no member's value (the message is Python's, with the token quoted plainly).
  \<open>ItemResult\<close> and \<open>ItemSampleResult\<close> are declared there too; they have the
  fields the module fills in.
\<close>

datatype ItemType = FILE | FOLDER

fun ItemType_value :: "ItemType \<Rightarrow> string" where
  "ItemType_value FILE = ''file''"
| "ItemType_value FOLDER = ''folder''"

definition ItemType_call :: "string \<Rightarrow> error + ItemType" where
  "ItemType_call token =
     (if token = ''file'' then Inr FILE
      else if token = ''folder'' then Inr FOLDER
      else Inl (ValueError ([CHR 0x27] @ token @ [CHR 0x27] @ '' is not a valid ItemType'')))"

record ItemResult =
  item_id :: string
  item_name :: string
  item_type :: ItemType

record ItemSampleResult =
  items :: "ItemResult list"

subsection \<open>Item identifiers\<close>

definition make_item_id :: "ItemType \<Rightarrow> string \<Rightarrow> string" where
  "make_item_id ty path = ItemType_value ty @ '':'' @ path"

definition parse_item_id :: "string \<Rightarrow> error + (ItemType \<times> string)" where
  \<comment> \<open>unpacking a one-element list into \<open>_type, _path\<close> raises \<open>ValueError\<close>\<close>
  "parse_item_id iid =
     (if iid = [] then Inr (FOLDER, ''/'')
      else (case str_split1 (CHR '':'') iid of
              [t, p] \<Rightarrow> (case ItemType_call t of
                            Inl e \<Rightarrow> Inl e
                          | Inr ty \<Rightarrow> Inr (ty, p))
            | _ \<Rightarrow> Inl (ValueError ''not enough values to unpack (expected 2, got 1)'')))"

definition owncloud_root_id :: string where
  "owncloud_root_id = make_item_id FOLDER ''/''"

subsection \<open>XML elements and the paths \<open>find\<close> and \<open>findall\<close> evaluate\<close>

text \<open>
  An \<open>xml.etree.ElementTree.Element\<close> with what the module reads of it: the tag in
  Clark notation (\<open>{DAV:}href\<close>), the text before the first child (\<open>None\<close> when there is
  none) and the children in document order. Attributes and tails are never read.
\<close>

datatype element = Element (el_tag: string) (el_text: "string option") (el_children: "element list")

fun iter :: "element \<Rightarrow> element list" where
  \<comment> \<open>\<open>Element.iter()\<close>: the element, then its descendants, in document order\<close>
  "iter (Element t x cs) = Element t x cs # concat (map iter cs)"

definition descendants :: "element \<Rightarrow> element list" where
  "descendants e = concat (map iter (el_children e))"

text \<open>
  The module passes four paths, each with the prefix map \<open>{"d": "DAV:", ...}\<close>:
  \<open>d:response\<close>, \<open>d:href\<close> and \<open>d:collection\<close> (children of the context element),
  \<open>.//d:resourcetype\<close> and \<open>.//d:displayname\<close> (descendants on all levels, the context
  element itself left out), and \<open>.//d:current-user-principal/d:href\<close>. A path is the list
  of its steps; \<open>DAV\<close> resolves the prefix \<open>d:\<close>.
\<close>

datatype step = Child string | Descendant string

definition DAV :: "string \<Rightarrow> string" where
  "DAV name = ''{DAV:}'' @ name"

fun select :: "step \<Rightarrow> element list \<Rightarrow> element list" where
  "select (Child t) result =
     concat (map (\<lambda>e. filter (\<lambda>c. el_tag c = t) (el_children e)) result)"
| "select (Descendant t) result =
     concat (map (\<lambda>e. filter (\<lambda>c. el_tag c = t) (descendants e)) result)"

definition Element_findall :: "element \<Rightarrow> step list \<Rightarrow> element list" where
  "Element_findall elem xpath = foldl (\<lambda>result s. select s result) [elem] xpath"

definition Element_find :: "element \<Rightarrow> step list \<Rightarrow> element option" where
  "Element_find elem xpath = (case Element_findall elem xpath of [] \<Rightarrow> None | e # _ \<Rightarrow> Some e)"

subsection \<open>The standard library and the collaborators\<close>

record ParseResult =
  url_scheme :: string
  url_netloc :: string
  url_path :: string
  url_params :: string
  url_query :: string
  url_fragment :: string

text \<open>
  The three functions of Python's standard library that the module calls are parameters of
  the embedding, so that every general theorem holds whatever they compute:
  \<open>ET.fromstring\<close> (which raises \<open>ParseError\<close> on malformed XML),
  \<open>urllib.parse.unquote\<close> and \<open>urllib.parse.urlparse\<close> (which raises \<open>ValueError\<close> on
  an invalid authority).
\<close>

record stdlib =
  fromstring :: "string \<Rightarrow> error + element"
  unquote :: "string \<Rightarrow> string"
  urlparse :: "string \<Rightarrow> error + ParseResult"

text \<open>
  A request is what \<open>self.network.PROPFIND(uri_path=..., headers=..., content=...)\<close> is
  called with. The network answers with the text of the response body
  (\<open>await response.text_content()\<close>) or raises.
\<close>

record request =
  uri_path :: string
  headers :: "(string \<times> string) list"
  content :: string

text \<open>
  The adapter object: \<open>self.config.external_api_url\<close> and \<open>self.network\<close>. The
  property \<open>_fallback_username\<close> is declared \<open>str | None\<close> and returns the string
  \<open>"default-username"\<close> on every object.
\<close>

record OwnCloudStorageImp =
  external_api_url :: string
  network :: "request \<Rightarrow> error + string"

definition OwnCloudStorageImp_init :: "string \<Rightarrow> (request \<Rightarrow> error + string) \<Rightarrow> OwnCloudStorageImp" where
  "OwnCloudStorageImp_init url net = \<lparr>external_api_url = url, network = net\<rparr>"

definition fallback_username :: "OwnCloudStorageImp \<Rightarrow> string option" where
  "fallback_username self = Some ''default-username''"

subsection \<open>Request bodies\<close>

definition BUILD_PROPFIND_CURRENT_USER_PRINCIPAL :: string where
  \<open>BUILD_PROPFIND_CURRENT_USER_PRINCIPAL =
     ''<?xml version="1.0" encoding="UTF-8"?>\<newline><d:propfind xmlns:d="DAV:">\<newline>    <d:prop>\<newline>        <d:current-user-principal/>\<newline>    </d:prop>\<newline></d:propfind>''\<close>

definition BUILD_PROPFIND_DISPLAYNAME :: string where
  \<open>BUILD_PROPFIND_DISPLAYNAME =
     ''<?xml version="1.0" encoding="UTF-8"?>\<newline><d:propfind xmlns:d="DAV:">\<newline>    <d:prop>\<newline>        <d:displayname/>\<newline>    </d:prop>\<newline></d:propfind>''\<close>

definition BUILD_PROPFIND_ALLPROPS :: string where
  \<open>BUILD_PROPFIND_ALLPROPS =
     ''<?xml version="1.0" encoding="UTF-8"?>\<newline><d:propfind xmlns:d="DAV:">\<newline>    <d:allprop/>\<newline></d:propfind>''\<close>

subsection \<open>Parsing responses\<close>

definition strip_absolute_path :: "string \<Rightarrow> string" where
  "strip_absolute_path path = lstrip ''/'' path"

definition parse_property :: "stdlib \<Rightarrow> string \<Rightarrow> step list \<Rightarrow> string \<Rightarrow> error + string" where
  "parse_property lib response_xml xpath error_message =
     (case fromstring lib response_xml of
        Inl e \<Rightarrow> Inl e
      | Inr root \<Rightarrow>
          (case Element_find root xpath of
             None \<Rightarrow> Inl (ValueError error_message)
           | Some el \<Rightarrow>
               (case el_text el of
                  None \<Rightarrow> Inl (ValueError error_message)
                | Some t \<Rightarrow> if t \<noteq> [] then Inr t else Inl (ValueError error_message))))"

definition parse_current_user_principal :: "stdlib \<Rightarrow> string \<Rightarrow> error + string" where
  "parse_current_user_principal lib response_xml =
     parse_property lib response_xml
       [Descendant (DAV ''current-user-principal''), Child (DAV ''href'')]
       ''current-user-principal not found in response''"

definition parse_displayname :: "stdlib \<Rightarrow> string \<Rightarrow> error + string" where
  "parse_displayname lib response_xml =
     (case parse_property lib response_xml [Descendant (DAV ''displayname'')]
             ''displayname not found in response'' of
        Inr name \<Rightarrow> Inr name
      | Inl e \<Rightarrow> if is_ValueError e then Inr ''default-name'' else Inl e)"

definition parse_response_element :: "element \<Rightarrow> string \<Rightarrow> ItemResult" where
  "parse_response_element response_element path =
     (let resourcetype = Element_find response_element [Descendant (DAV ''resourcetype'')];
          ty = (case resourcetype of
                  None \<Rightarrow> FILE
                | Some rt \<Rightarrow>
                    (case Element_find rt [Child (DAV ''collection'')] of
                       None \<Rightarrow> FILE
                     | Some c \<Rightarrow> FOLDER));
          displayname_element = Element_find response_element [Descendant (DAV ''displayname'')];
          last_segment = last (str_split (CHR ''/'') (rstrip ''/'' path));
          displayname = (case displayname_element of
                           None \<Rightarrow> last_segment
                         | Some de \<Rightarrow>
                             (case el_text de of
                                None \<Rightarrow> last_segment
                              | Some t \<Rightarrow> if t \<noteq> [] then t else last_segment))
      in \<lparr>item_id = make_item_id ty path, item_name = displayname, item_type = ty\<rparr>)"

definition href_to_path :: "stdlib \<Rightarrow> OwnCloudStorageImp \<Rightarrow> string \<Rightarrow> error + string" where
  "href_to_path lib self href =
     (case urlparse lib (unquote lib href) of
        Inl e \<Rightarrow> Inl e
      | Inr parsed_href \<Rightarrow>
          (let href_path = lstrip ''/'' (url_path parsed_href) in
           case urlparse lib (external_api_url self) of
             Inl e \<Rightarrow> Inl e
           | Inr parsed_base \<Rightarrow>
               (let base_path = lstrip ''/'' (rstrip ''/'' (url_path parsed_base));
                    path = (if startswith href_path base_path
                            then drop (length base_path) href_path
                            else href_path);
                    path' = strip ''/'' path
                in Inr (if path' \<noteq> [] then path' else ''/''))))"

subsection \<open>The operations\<close>

text \<open>
  Each operation returns the requests it sent, in order, and its result or the exception
  it raised. \<open>async with\<close> and \<open>await\<close> add nothing to this: the operations are
  sequential and a request is sent once the previous answer has been read.
\<close>

definition get_external_account_id ::
    "stdlib \<Rightarrow> OwnCloudStorageImp \<Rightarrow> (string \<rightharpoonup> string) \<Rightarrow> request list \<times> (error + string)" where
  "get_external_account_id lib self auth_result_extras =
     (let hdrs = [(''Depth'', ''0'')];
          request1 = \<lparr>uri_path = strip_absolute_path [], headers = hdrs,
                      content = BUILD_PROPFIND_CURRENT_USER_PRINCIPAL\<rparr>
      in case network self request1 of
           Inl e \<Rightarrow> ([request1], Inl e)
         | Inr response_xml \<Rightarrow>
             (case (case parse_current_user_principal lib response_xml of
                      Inr url \<Rightarrow> Inr url
                    | Inl e \<Rightarrow>
                        if is_ValueError e
                        then (let username = py_or (auth_result_extras ''username'')
                                               (fallback_username self)
                              in case username of
                                   None \<Rightarrow> Inl (ValueError
                                     ''Username is required for fallback but not provided.'')
                                 | Some u \<Rightarrow>
                                     if u = []
                                     then Inl (ValueError
                                       ''Username is required for fallback but not provided.'')
                                     else Inr (''/remote.php/dav/files/'' @ u @ ''/''))
                        else Inl e) of
                Inl e \<Rightarrow> ([request1], Inl e)
              | Inr current_user_principal_url \<Rightarrow>
                  (let url = lstrip ''/'' current_user_principal_url;
                       request2 = \<lparr>uri_path = strip_absolute_path url, headers = hdrs,
                                   content = BUILD_PROPFIND_DISPLAYNAME\<rparr>
                   in case network self request2 of
                        Inl e \<Rightarrow> ([request1, request2], Inl e)
                      | Inr response_xml2 \<Rightarrow>
                          ([request1, request2], parse_displayname lib response_xml2))))"

definition get_item_info ::
    "stdlib \<Rightarrow> OwnCloudStorageImp \<Rightarrow> string \<Rightarrow> request list \<times> (error + ItemResult)" where
  "get_item_info lib self iid =
     (case parse_item_id iid of
        Inl e \<Rightarrow> ([], Inl e)
      | Inr (ty, path) \<Rightarrow>
          (let url = strip_absolute_path path;
               request1 = \<lparr>uri_path = url, headers = [(''Depth'', ''0'')],
                           content = BUILD_PROPFIND_ALLPROPS\<rparr>
           in case network self request1 of
                Inl e \<Rightarrow> ([request1], Inl e)
              | Inr response_xml \<Rightarrow>
                  ([request1],
                   case fromstring lib response_xml of
                     Inl e \<Rightarrow> Inl e
                   | Inr root \<Rightarrow>
                       (case Element_find root [Child (DAV ''response'')] of
                          None \<Rightarrow> Inl (ValueError
                            ''No response element found in PROPFIND response'')
                        | Some response_element \<Rightarrow>
                            Inr (parse_response_element response_element path)))))"

text \<open>
  The loop of \<open>list_child_items\<close> over the \<open>d:response\<close> elements: \<open>acc\<close> is the
  list \<open>items\<close> built so far, each \<open>continue\<close> goes on with it unchanged, and an
  exception of \<open>_href_to_path\<close> ends the loop.
\<close>

fun list_child_items_loop ::
    "stdlib \<Rightarrow> OwnCloudStorageImp \<Rightarrow> string \<Rightarrow> ItemType option \<Rightarrow> element list
      \<Rightarrow> ItemResult list \<Rightarrow> error + ItemResult list" where
  "list_child_items_loop lib self path want [] acc = Inr acc"
| "list_child_items_loop lib self path want (response_element # rest) acc =
     (case Element_find response_element [Child (DAV ''href'')] of
        None \<Rightarrow> list_child_items_loop lib self path want rest acc
      | Some href_element \<Rightarrow>
          (case el_text href_element of
             None \<Rightarrow> list_child_items_loop lib self path want rest acc
           | Some href \<Rightarrow>
               if href = [] then list_child_items_loop lib self path want rest acc
               else (case href_to_path lib self href of
                       Inl e \<Rightarrow> Inl e
                     | Inr item_path \<Rightarrow>
                         if rstrip ''/'' item_path = rstrip ''/'' path
                         then list_child_items_loop lib self path want rest acc
                         else (let item_result = parse_response_element response_element item_path
                               in if want \<noteq> None \<and> Some (item_type item_result) \<noteq> want
                                  then list_child_items_loop lib self path want rest acc
                                  else list_child_items_loop lib self path want rest
                                         (acc @ [item_result])))))"

definition list_child_items ::
    "stdlib \<Rightarrow> OwnCloudStorageImp \<Rightarrow> string \<Rightarrow> string \<Rightarrow> ItemType option
      \<Rightarrow> request list \<times> (error + ItemSampleResult)" where
  "list_child_items lib self iid page_cursor want =
     (case parse_item_id iid of
        Inl e \<Rightarrow> ([], Inl e)
      | Inr (ty, path) \<Rightarrow>
          (let relative_path = strip_absolute_path path;
               request1 = \<lparr>uri_path = relative_path, headers = [(''Depth'', ''1'')],
                           content = BUILD_PROPFIND_ALLPROPS\<rparr>
           in case network self request1 of
                Inl e \<Rightarrow> ([request1], Inl e)
              | Inr response_xml \<Rightarrow>
                  ([request1],
                   case fromstring lib response_xml of
                     Inl e \<Rightarrow> Inl e
                   | Inr root \<Rightarrow>
                       (case list_child_items_loop lib self path want
                               (Element_findall root [Child (DAV ''response'')]) [] of
                          Inl e \<Rightarrow> Inl e
                        | Inr found \<Rightarrow> Inr \<lparr>items = found\<rparr>))))"

definition list_root_items ::
    "stdlib \<Rightarrow> OwnCloudStorageImp \<Rightarrow> string \<Rightarrow> request list \<times> (error + ItemSampleResult)" where
  "list_root_items lib self page_cursor =
     list_child_items lib self owncloud_root_id page_cursor None"

subsection \<open>A model of \<open>urllib.parse\<close> for concrete URLs\<close>

text \<open>
  For the concrete URLs of the specification the two functions of \<open>urllib.parse\<close> are
  written out after CPython 3.11. \<open>py_unquote\<close> replaces each \<open>%XX\<close> by its byte (the
  result is Python's whenever the escaped bytes are valid UTF-8; Python replaces any other
  by U+FFFD). \<open>py_urlparse\<close> follows \<open>urlsplit\<close> and \<open>urlparse\<close> step by step;
  of the checks of the authority it has the one for unbalanced brackets, not the
  validation of a bracketed host nor the NFKC check of a non-ASCII authority. Only the
  concrete instances below use them.
\<close>

definition hexdigit :: "char \<Rightarrow> nat option" where
  "hexdigit c =
     (if c \<in> set ''0123456789'' then Some (of_char c - 48)
      else if c \<in> set ''ABCDEF'' then Some (of_char c - 55)
      else if c \<in> set ''abcdef'' then Some (of_char c - 87)
      else None)"

fun py_unquote :: "string \<Rightarrow> string" where
  "py_unquote (c # h # l # rest) =
     (if c = CHR ''%''
      then (case hexdigit h of
              None \<Rightarrow> c # py_unquote (h # l # rest)
            | Some a \<Rightarrow>
                (case hexdigit l of
                   None \<Rightarrow> c # py_unquote (h # l # rest)
                 | Some b \<Rightarrow> char_of (16 * a + b) # py_unquote rest))
      else c # py_unquote (h # l # rest))"
| "py_unquote cs = cs"

definition scheme_chars :: string where
  "scheme_chars = ''abcdefghijklmnopqrstuvwxyzABCDEFGHIJKLMNOPQRSTUVWXYZ0123456789+-.''"

definition uses_params :: "string list" where
  "uses_params = [ [], ''ftp'', ''hdl'', ''prospero'', ''http'', ''imap'', ''https'', ''shttp'',
                  ''rtsp'', ''rtspu'', ''sip'', ''sips'', ''mms'', ''sftp'', ''tel'']"

definition lower :: "char \<Rightarrow> char" where
  "lower c = (if c \<in> set ''ABCDEFGHIJKLMNOPQRSTUVWXYZ'' then char_of (of_char c + (32::nat)) else c)"

definition partition_at :: "char \<Rightarrow> string \<Rightarrow> string \<times> string" where
  \<comment> \<open>\<open>url.split(c, 1)\<close> when \<open>c in url\<close>, the url and the empty string otherwise\<close>
  "partition_at c url =
     (if c \<in> set url
      then (takeWhile (\<lambda>x. x \<noteq> c) url, tl (dropWhile (\<lambda>x. x \<noteq> c) url))
      else (url, []))"

definition py_urlsplit :: "string \<Rightarrow> error + ParseResult" where
  "py_urlsplit url0 =
     (let url1 = dropWhile (\<lambda>c. (of_char c :: nat) \<le> 32) url0;
          url2 = filter (\<lambda>c. (of_char c :: nat) \<notin> {9, 10, 13}) url1;
          i = length (takeWhile (\<lambda>c. c \<noteq> CHR '':'') url2);
          has_scheme = (CHR '':'' \<in> set url2 \<and> 0 < i
                        \<and> hd url2 \<in> set (take 52 scheme_chars)
                        \<and> list_all (\<lambda>c. c \<in> set scheme_chars) (take i url2));
          scheme = (if has_scheme then map lower (take i url2) else []);
          url3 = (if has_scheme then drop (i + 1) url2 else url2);
          has_netloc = (take 2 url3 = ''//'');
          netloc = (if has_netloc
                    then takeWhile (\<lambda>c. c \<notin> set ''/?#'') (drop 2 url3) else []);
          url4 = (if has_netloc
                  then dropWhile (\<lambda>c. c \<notin> set ''/?#'') (drop 2 url3) else url3)
      in if (CHR ''['' \<in> set netloc) \<noteq> (CHR '']'' \<in> set netloc)
         then Inl (ValueError ''Invalid IPv6 URL'')
         else (let url5 = fst (partition_at (CHR ''#'') url4);
                   fragment = snd (partition_at (CHR ''#'') url4);
                   url6 = fst (partition_at (CHR ''?'') url5);
                   query = snd (partition_at (CHR ''?'') url5)
               in Inr \<lparr>url_scheme = scheme, url_netloc = netloc, url_path = url6,
                        url_params = [], url_query = query, url_fragment = fragment\<rparr>))"

definition splitparams :: "string \<Rightarrow> string \<times> string" where
  "splitparams url =
     (if CHR ''/'' \<in> set url
      then (let k = length url - 1 - length (takeWhile (\<lambda>c. c \<noteq> CHR ''/'') (rev url));
                after = drop k url
            in if CHR '';'' \<in> set after
               then (let i = k + length (takeWhile (\<lambda>c. c \<noteq> CHR '';'') after)
                     in (take i url, drop (i + 1) url))
               else (url, []))
      else partition_at (CHR '';'') url)"

definition py_urlparse :: "string \<Rightarrow> error + ParseResult" where
  "py_urlparse url =
     (case py_urlsplit url of
        Inl e \<Rightarrow> Inl e
      | Inr r \<Rightarrow>
          if url_scheme r \<in> set uses_params \<and> CHR '';'' \<in> set (url_path r)
          then Inr (r\<lparr>url_path := fst (splitparams (url_path r)),
                       url_params := snd (splitparams (url_path r))\<rparr>)
          else Inr r)"

definition python_stdlib :: "(string \<Rightarrow> error + element) \<Rightarrow> stdlib" where
  "python_stdlib xml_parser =
     \<lparr>fromstring = xml_parser, unquote = py_unquote, urlparse = py_urlparse\<rparr>"

subsection \<open>The specification's \<open>hrefToPath\<close>\<close>




subsection \<open>The segments of a path\<close>

text \<open>
  The specification speaks of the last non-empty segment of a slash-delimited path;
  these are the non-empty segments, in order.
\<close>

definition nonempty_segments :: "string \<Rightarrow> string list" where
  "nonempty_segments path = filter (\<lambda>s. s \<noteq> []) (str_split (CHR ''/'') path)"

section \<open>Properties\<close>

subsection \<open>Item identifiers\<close>

lemma str_split1_first_sep:
  "sep \<notin> set t \<Longrightarrow> str_split1 sep (t @ sep # p) = [t, p]"
  by (simp add: str_split1_def takeWhile_append dropWhile_append
        takeWhile_eq_all_conv[THEN iffD2] dropWhile_eq_Nil_conv[THEN iffD2])

lemma str_split1_no_sep:
  "sep \<notin> set s \<Longrightarrow> str_split1 sep s = [s]"
  by (simp add: str_split1_def)

lemma ItemType_call_value: "ItemType_call (ItemType_value ty) = Inr ty"
  by (cases ty) (simp_all add: ItemType_call_def)

lemma colon_notin_ItemType_value: "CHR '':'' \<notin> set (ItemType_value ty)"
  by (cases ty) simp_all

lemma ItemType_call_error: "ItemType_call t = Inl e \<Longrightarrow> is_ValueError e"
  by (auto simp: ItemType_call_def split: if_splits)

lemma parse_item_id_split:
  assumes "CHR '':'' \<notin> set t"
  shows "parse_item_id (t @ CHR '':'' # p) =
           (case ItemType_call t of Inl e \<Rightarrow> Inl e | Inr ty \<Rightarrow> Inr (ty, p))"
  using str_split1_first_sep[OF assms, of p]
  by (simp add: parse_item_id_def)

lemma parse_make_item_id: "parse_item_id (make_item_id ty path) = Inr (ty, path)"
  by (simp add: make_item_id_def parse_item_id_split[OF colon_notin_ItemType_value]
        ItemType_call_value)

lemma parse_item_id_error: "parse_item_id iid = Inl e \<Longrightarrow> is_ValueError e"
  by (auto simp: parse_item_id_def str_split1_def
      split: if_splits sum.splits dest: ItemType_call_error)

lemma parse_item_id_fails_iff:
  "isl (parse_item_id iid) \<longleftrightarrow>
     iid \<noteq> [] \<and> (CHR '':'' \<notin> set iid
        \<or> takeWhile (\<lambda>c. c \<noteq> CHR '':'') iid \<notin> {''file'', ''folder''})"
  by (auto simp: parse_item_id_def str_split1_def ItemType_call_def
      split: if_splits sum.splits)

text \<open>
  \<^bold>\<open>C4.\<close> For every item type and every path, decoding the encoded item identifier
  gives back the pair: \<open>_parse_item_id(_make_item_id(type, path)) == (type, path)\<close>.
  The path may contain colons or be empty.
\<close>

theorem make_item_id_roundtrip:
  "parse_item_id (make_item_id ty path) = Inr (ty, path)"
  by (simp add: make_item_id_def parse_item_id_split[OF colon_notin_ItemType_value]
        ItemType_call_value)

theorem make_item_id_roundtrip_witness:
  "parse_item_id (make_item_id FILE ''docs/a:b.txt'') = Inr (FILE, ''docs/a:b.txt'')"
  using make_item_id_roundtrip [of FILE "''docs/a:b.txt''"] by simp

text \<open>
  \<^bold>\<open>C5.\<close> \<open>_parse_item_id\<close> answers \<open>(FOLDER, "/")\<close> on the empty string. Any other
  input is split at its first colon only, so that \<open>"folder:a:b"\<close> is \<open>(FOLDER, "a:b")\<close>:
  for a token \<open>t\<close> without a colon, \<open>t:p\<close> decodes to the type whose value \<open>t\<close> is and
  the path \<open>p\<close>, and raises when \<open>t\<close> is no value of \<open>ItemType\<close>. An input without
  a colon raises (\<open>"bogus"\<close> does). The call fails exactly when the input is not empty
  and has no colon or an unknown token before its first colon, and what it raises is a
  \<open>ValueError\<close>, the specification's \<open>InvalidItemId\<close>.
\<close>

theorem parse_item_id_spec:
  "parse_item_id [] = Inr (FOLDER, ''/'')
   \<and> parse_item_id ''folder:a:b'' = Inr (FOLDER, ''a:b'')
   \<and> parse_item_id ''bogus'' = Inl (ValueError ''not enough values to unpack (expected 2, got 1)'')
   \<and> (CHR '':'' \<notin> set t \<longrightarrow>
        parse_item_id (t @ '':'' @ p) =
          (if t = ''file'' then Inr (FILE, p)
           else if t = ''folder'' then Inr (FOLDER, p)
           else Inl (ValueError ([CHR 0x27] @ t @ [CHR 0x27] @ '' is not a valid ItemType''))))
   \<and> (iid \<noteq> [] \<and> CHR '':'' \<notin> set iid \<longrightarrow>
        parse_item_id iid = Inl (ValueError ''not enough values to unpack (expected 2, got 1)''))
   \<and> (isl (parse_item_id iid) \<longleftrightarrow>
        iid \<noteq> [] \<and> (CHR '':'' \<notin> set iid
          \<or> takeWhile (\<lambda>c. c \<noteq> CHR '':'') iid \<notin> {''file'', ''folder''}))
   \<and> (parse_item_id iid = Inl e \<longrightarrow> is_ValueError e)"
proof -
  have empty: "parse_item_id [] = Inr (FOLDER, ''/'')"
    by (simp add: parse_item_id_def)
  have two_colons: "parse_item_id ''folder:a:b'' = Inr (FOLDER, ''a:b'')"
    by (simp add: parse_item_id_def str_split1_def ItemType_call_def)
  have bogus: "parse_item_id ''bogus'' =
      Inl (ValueError ''not enough values to unpack (expected 2, got 1)'')"
    by (simp add: parse_item_id_def str_split1_def)
  have first_colon: "CHR '':'' \<notin> set t \<longrightarrow>
        parse_item_id (t @ '':'' @ p) =
          (if t = ''file'' then Inr (FILE, p)
           else if t = ''folder'' then Inr (FOLDER, p)
           else Inl (ValueError ([CHR 0x27] @ t @ [CHR 0x27] @ '' is not a valid ItemType'')))"
  proof
    assume "CHR '':'' \<notin> set t"
    from parse_item_id_split[OF this, of p]
    show "parse_item_id (t @ '':'' @ p) =
          (if t = ''file'' then Inr (FILE, p)
           else if t = ''folder'' then Inr (FOLDER, p)
           else Inl (ValueError ([CHR 0x27] @ t @ [CHR 0x27] @ '' is not a valid ItemType'')))"
      by (simp add: ItemType_call_def)
  qed
  have no_colon: "iid \<noteq> [] \<and> CHR '':'' \<notin> set iid \<longrightarrow>
        parse_item_id iid = Inl (ValueError ''not enough values to unpack (expected 2, got 1)'')"
    by (simp add: parse_item_id_def str_split1_no_sep)
  show ?thesis
    using empty two_colons bogus first_colon no_colon
      parse_item_id_fails_iff[of iid] parse_item_id_error[of iid e]
    by blast
qed

theorem parse_item_id_spec_witness:
  "CHR '':'' \<notin> set ''folder''
   \<and> parse_item_id (''folder'' @ '':'' @ ''a:b'') = Inr (FOLDER, ''a:b'')
   \<and> ''bogus'' \<noteq> [] \<and> CHR '':'' \<notin> set ''bogus''
   \<and> parse_item_id ''bogus'' = Inl (ValueError ''not enough values to unpack (expected 2, got 1)'')
   \<and> isl (parse_item_id ''bogus'')
   \<and> is_ValueError (ValueError ''not enough values to unpack (expected 2, got 1)'')"
  using parse_item_id_spec [of "''folder''" "''a:b''" "''bogus''"
          "ValueError ''not enough values to unpack (expected 2, got 1)''"]
  by simp

subsection \<open>From an href to a path\<close>









lemma rstrip_decomp: "\<exists>t. s = rstrip cs s @ t \<and> set t \<subseteq> set cs"
proof -
  let ?P = "\<lambda>c. c \<in> set cs"
  have "rev (dropWhile ?P (rev s)) @ rev (takeWhile ?P (rev s))
          = rev (takeWhile ?P (rev s) @ dropWhile ?P (rev s))"
    by (simp only: rev_append)
  also have "\<dots> = s"
    by (simp only: takeWhile_dropWhile_id rev_rev_ident)
  finally have "s = rstrip cs s @ rev (takeWhile ?P (rev s))"
    by (simp only: rstrip_def)
  moreover have "set (rev (takeWhile ?P (rev s))) \<subseteq> set cs"
    by (auto dest: set_takeWhileD)
  ultimately show ?thesis by blast
qed




























subsection \<open>The name of an item\<close>

lemma str_split_not_Nil: "str_split c s \<noteq> []"
  by (induction s) auto

lemma str_split_snoc_sep: "str_split c (s @ [c]) = str_split c s @ [ [] ]"
  by (induction s) (auto simp: str_split_not_Nil)

lemma str_split_snoc_other:
  "x \<noteq> c \<Longrightarrow> str_split c (s @ [x]) = butlast (str_split c s) @ [last (str_split c s) @ [x]]"
proof (induction s)
  case Nil
  then show ?case by simp
next
  case (Cons y ys)
  show ?case
  proof (cases "str_split c ys")
    case Nil
    then show ?thesis using str_split_not_Nil[of c ys] by simp
  next
    case (Cons z zs)
    with Cons.IH[OF Cons.prems] show ?thesis
      by (cases zs) auto
  qed
qed

lemma nonempty_segments_append_seps:
  "set t \<subseteq> {CHR ''/''} \<Longrightarrow> nonempty_segments (s @ t) = nonempty_segments s"
proof (induction t arbitrary: s)
  case Nil
  show ?case by simp
next
  case (Cons x t)
  then have x: "x = CHR ''/''" and t: "set t \<subseteq> {CHR ''/''}" by auto
  have "nonempty_segments (s @ x # t) = nonempty_segments ((s @ [x]) @ t)" by simp
  also have "\<dots> = nonempty_segments (s @ [x])" using t by (rule Cons.IH)
  also have "\<dots> = nonempty_segments s"
    by (simp add: nonempty_segments_def x str_split_snoc_sep)
  finally show ?case .
qed

lemma rstrip_last: "rstrip cs s = [] \<or> last (rstrip cs s) \<notin> set cs"
proof (cases "rstrip cs s = []")
  case True then show ?thesis by simp
next
  case False
  then have ne: "dropWhile (\<lambda>c. c \<in> set cs) (rev s) \<noteq> []"
    by (simp add: rstrip_def)
  have "last (rstrip cs s) = hd (dropWhile (\<lambda>c. c \<in> set cs) (rev s))"
    by (simp only: rstrip_def last_rev)
  with hd_dropWhile[OF ne] show ?thesis by simp
qed

lemma last_filter_nonempty:
  "xs \<noteq> [] \<Longrightarrow> last xs \<noteq> [] \<Longrightarrow>
     filter (\<lambda>s. s \<noteq> []) xs \<noteq> [] \<and> last (filter (\<lambda>s. s \<noteq> []) xs) = last xs"
proof (induction xs)
  case Nil
  then show ?case by simp
next
  case (Cons x xs)
  show ?case
  proof (cases "xs = []")
    case True
    with Cons.prems show ?thesis by simp
  next
    case False
    with Cons.prems have "last xs \<noteq> []" by simp
    with False Cons.IH show ?thesis by simp
  qed
qed

lemma last_segment:
  "last (str_split (CHR ''/'') (rstrip ''/'' path)) =
     (if nonempty_segments path = [] then [] else last (nonempty_segments path))"
proof -
  let ?r = "rstrip ''/'' path"
  from rstrip_decomp[of path "''/''"] obtain t where
    t: "path = ?r @ t" "set t \<subseteq> set ''/''" by blast
  then have "set t \<subseteq> {CHR ''/''}" by simp
  then have "nonempty_segments (?r @ t) = nonempty_segments ?r"
    by (rule nonempty_segments_append_seps)
  with t(1) have seg: "nonempty_segments path = nonempty_segments ?r" by simp
  show ?thesis
  proof (cases "?r = []")
    case True
    with seg show ?thesis by (simp add: nonempty_segments_def)
  next
    case False
    with rstrip_last[of "''/''" path] have "last ?r \<noteq> CHR ''/''" by simp
    from str_split_snoc_other[OF this, of "butlast ?r"] False
    have "last (str_split (CHR ''/'') ?r) \<noteq> []" by simp
    from last_filter_nonempty[OF str_split_not_Nil this] seg
    show ?thesis by (simp add: nonempty_segments_def)
  qed
qed

lemma parse_response_element_fallback:
  assumes "Element_find response_element [Descendant (DAV ''displayname'')] = None
           \<or> (\<exists>de. Element_find response_element [Descendant (DAV ''displayname'')] = Some de
                    \<and> \<not> truthy (el_text de))"
  shows "item_name (parse_response_element response_element path) =
           last (str_split (CHR ''/'') (rstrip ''/'' path))"
  using assms
proof
  assume "Element_find response_element [Descendant (DAV ''displayname'')] = None"
  then show ?thesis by (simp add: parse_response_element_def Let_def)
next
  assume "\<exists>de. Element_find response_element [Descendant (DAV ''displayname'')] = Some de
                    \<and> \<not> truthy (el_text de)"
  then obtain de where de: "Element_find response_element [Descendant (DAV ''displayname'')] = Some de"
    and nt: "\<not> truthy (el_text de)" by blast
  show ?thesis
  proof (cases "el_text de")
    case None
    with de show ?thesis by (simp add: parse_response_element_def Let_def)
  next
    case (Some x)
    with nt have "x = []" by simp
    with de Some show ?thesis by (simp add: parse_response_element_def Let_def)
  qed
qed

text \<open>
  \<^bold>\<open>C2.\<close> For every path and every response element that has no \<open>displayname\<close>
  descendant, or whose first one has no text, \<open>_parse_response_element\<close> names the item
  after the last non-empty segment of the path when the path has one, and gives it the
  empty name when it has none (the root \<open>/\<close>, or the empty path).
\<close>

theorem parse_response_element_name:
  assumes "Element_find response_element [Descendant (DAV ''displayname'')] = None
           \<or> (\<exists>de. Element_find response_element [Descendant (DAV ''displayname'')] = Some de
                    \<and> \<not> truthy (el_text de))"
  shows "item_name (parse_response_element response_element path) =
           (if nonempty_segments path = [] then [] else last (nonempty_segments path))"
  using parse_response_element_fallback[OF assms, of path] last_segment[of path]
  by simp

theorem parse_response_element_name_witness:
  "Element_find
      (Element (DAV ''response'') None
         [Element (DAV ''href'') (Some ''/remote.php/dav/files/u/docs/a/'') [],
          Element (DAV ''propstat'') None
            [Element (DAV ''prop'') None
               [Element (DAV ''resourcetype'') None [Element (DAV ''collection'') None []]]]])
      [Descendant (DAV ''displayname'')] = None
   \<and> nonempty_segments ''docs/a/'' = [''docs'', ''a'']
   \<and> item_name (parse_response_element
      (Element (DAV ''response'') None
         [Element (DAV ''href'') (Some ''/remote.php/dav/files/u/docs/a/'') [],
          Element (DAV ''propstat'') None
            [Element (DAV ''prop'') None
               [Element (DAV ''resourcetype'') None [Element (DAV ''collection'') None []]]]])
      ''docs/a/'') = ''a''"
proof -
  let ?el = "Element (DAV ''response'') None
         [Element (DAV ''href'') (Some ''/remote.php/dav/files/u/docs/a/'') [],
          Element (DAV ''propstat'') None
            [Element (DAV ''prop'') None
               [Element (DAV ''resourcetype'') None [Element (DAV ''collection'') None []]]]]"
  have none: "Element_find ?el [Descendant (DAV ''displayname'')] = None"
    by code_simp
  have segs: "nonempty_segments ''docs/a/'' = [''docs'', ''a'']"
    by code_simp
  from none have "Element_find ?el [Descendant (DAV ''displayname'')] = None
           \<or> (\<exists>de. Element_find ?el [Descendant (DAV ''displayname'')] = Some de
                    \<and> \<not> truthy (el_text de))" ..
  from parse_response_element_name[OF this, of "''docs/a/''"]
  have "item_name (parse_response_element ?el ''docs/a/'') = ''a''"
    by (simp only: segs) simp
  with none segs show ?thesis by (intro conjI)
qed

text \<open>
  At the root the claim as the specification words it has nothing to point at: the path
  \<open>/\<close> has no non-empty segment, and the item of a response without display name gets
  the empty name.
\<close>

theorem parse_response_element_root_counterexample:
  "Element_find
      (Element (DAV ''response'') None
         [Element (DAV ''href'') (Some ''/remote.php/dav/files/u/'') [],
          Element (DAV ''propstat'') None
            [Element (DAV ''prop'') None
               [Element (DAV ''resourcetype'') None [Element (DAV ''collection'') None []]]]])
      [Descendant (DAV ''displayname'')] = None
   \<and> nonempty_segments ''/'' = []
   \<and> parse_response_element
      (Element (DAV ''response'') None
         [Element (DAV ''href'') (Some ''/remote.php/dav/files/u/'') [],
          Element (DAV ''propstat'') None
            [Element (DAV ''prop'') None
               [Element (DAV ''resourcetype'') None [Element (DAV ''collection'') None []]]]])
      ''/'' = \<lparr>item_id = ''folder:/'', item_name = [], item_type = FOLDER\<rparr>"
  by code_simp

subsection \<open>The operations\<close>

lemma parse_item_id_file: "parse_item_id (''file:'' @ p) = Inr (FILE, p)"
  using parse_item_id_split[of "''file''" p] by (simp add: ItemType_call_def)

lemma parse_item_id_folder: "parse_item_id (''folder:'' @ p) = Inr (FOLDER, p)"
  using parse_item_id_split[of "''folder''" p] by (simp add: ItemType_call_def)

lemma get_item_info_path_only:
  assumes "parse_item_id a = Inr (ta, path)" and "parse_item_id b = Inr (tb, path)"
  shows "get_item_info lib self a = get_item_info lib self b"
  unfolding get_item_info_def by (simp only: assms sum.case prod.case)

lemma list_child_items_path_only:
  assumes "parse_item_id a = Inr (ta, path)" and "parse_item_id b = Inr (tb, path)"
  shows "list_child_items lib self a page_cursor want = list_child_items lib self b page_cursor want"
  unfolding list_child_items_def by (simp only: assms sum.case prod.case)

text \<open>
  \<^bold>\<open>C9.\<close> For every path \<open>p\<close> and whatever the network and the parsers answer,
  \<open>get_item_info\<close> and \<open>list_child_items\<close> send the same request and return the same
  result for the identifiers \<open>"file:" + p\<close> and \<open>"folder:" + p\<close>: the type decoded
  from the identifier is not used, only the path is.
\<close>

theorem item_type_tag_unused:
  "get_item_info lib self (''file:'' @ p) = get_item_info lib self (''folder:'' @ p)
   \<and> list_child_items lib self (''file:'' @ p) page_cursor want
       = list_child_items lib self (''folder:'' @ p) page_cursor want"
  using get_item_info_path_only[OF parse_item_id_file parse_item_id_folder]
    list_child_items_path_only[OF parse_item_id_file parse_item_id_folder]
  by blast

theorem item_type_tag_unused_witness:
  "get_item_info (python_stdlib (\<lambda>s. Inr (Element (DAV ''multistatus'') None [])))
       (OwnCloudStorageImp_init ''https://host/remote.php/dav/files/u/'' (\<lambda>r. Inr ''<multistatus/>''))
       (''file:'' @ ''docs'')
     = get_item_info (python_stdlib (\<lambda>s. Inr (Element (DAV ''multistatus'') None [])))
       (OwnCloudStorageImp_init ''https://host/remote.php/dav/files/u/'' (\<lambda>r. Inr ''<multistatus/>''))
       (''folder:'' @ ''docs'')
   \<and> list_child_items (python_stdlib (\<lambda>s. Inr (Element (DAV ''multistatus'') None [])))
       (OwnCloudStorageImp_init ''https://host/remote.php/dav/files/u/'' (\<lambda>r. Inr ''<multistatus/>''))
       (''file:'' @ ''docs'') [] None
     = list_child_items (python_stdlib (\<lambda>s. Inr (Element (DAV ''multistatus'') None [])))
       (OwnCloudStorageImp_init ''https://host/remote.php/dav/files/u/'' (\<lambda>r. Inr ''<multistatus/>''))
       (''folder:'' @ ''docs'') [] None"
  by (rule item_type_tag_unused)

text \<open>
  \<^bold>\<open>C7.\<close> When the identifier decodes, the \<open>PROPFIND\<close> is answered and the answer
  parses to a document without any \<open>d:response\<close> child, \<open>get_item_info\<close> raises
  \<open>ValueError("No response element found in PROPFIND response")\<close>, the specification's
  \<open>ItemNotFound\<close>, after its single request.
\<close>

theorem get_item_info_no_response:
  assumes "parse_item_id iid = Inr (ty, path)"
      and "network self \<lparr>uri_path = strip_absolute_path path, headers = [(''Depth'', ''0'')],
                           content = BUILD_PROPFIND_ALLPROPS\<rparr> = Inr response_xml"
      and "fromstring lib response_xml = Inr root"
      and "Element_findall root [Child (DAV ''response'')] = []"
  shows "get_item_info lib self iid =
           ([\<lparr>uri_path = strip_absolute_path path, headers = [(''Depth'', ''0'')],
              content = BUILD_PROPFIND_ALLPROPS\<rparr>],
            Inl (ValueError ''No response element found in PROPFIND response''))"
proof -
  from assms(4) have "Element_find root [Child (DAV ''response'')] = None"
    by (simp add: Element_find_def)
  then show ?thesis
    unfolding get_item_info_def Let_def
    by (simp only: assms(1-3) sum.case prod.case option.case)
qed

theorem get_item_info_no_response_witness:
  "parse_item_id ''file:docs/a.txt'' = Inr (FILE, ''docs/a.txt'')
   \<and> Element_findall (Element (DAV ''multistatus'') None []) [Child (DAV ''response'')] = []
   \<and> get_item_info (python_stdlib (\<lambda>s. Inr (Element (DAV ''multistatus'') None [])))
        (OwnCloudStorageImp_init ''https://host/remote.php/dav/files/u/'' (\<lambda>r. Inr ''<multistatus/>''))
        ''file:docs/a.txt''
       = ([\<lparr>uri_path = ''docs/a.txt'', headers = [(''Depth'', ''0'')],
            content = BUILD_PROPFIND_ALLPROPS\<rparr>],
          Inl (ValueError ''No response element found in PROPFIND response''))"
proof -
  let ?lib = "python_stdlib (\<lambda>s. Inr (Element (DAV ''multistatus'') None []))"
  let ?self = "OwnCloudStorageImp_init ''https://host/remote.php/dav/files/u/''
                 (\<lambda>r. Inr ''<multistatus/>'')"
  have id: "parse_item_id ''file:docs/a.txt'' = Inr (FILE, ''docs/a.txt'')"
    by code_simp
  have net: "network ?self \<lparr>uri_path = strip_absolute_path ''docs/a.txt'',
               headers = [(''Depth'', ''0'')], content = BUILD_PROPFIND_ALLPROPS\<rparr>
             = Inr ''<multistatus/>''"
    by (simp add: OwnCloudStorageImp_init_def)
  have xml: "fromstring ?lib ''<multistatus/>'' = Inr (Element (DAV ''multistatus'') None [])"
    by (simp add: python_stdlib_def)
  have none: "Element_findall (Element (DAV ''multistatus'') None []) [Child (DAV ''response'')] = []"
    by code_simp
  have p: "strip_absolute_path ''docs/a.txt'' = ''docs/a.txt''"
    by code_simp
  from get_item_info_no_response[OF id net xml none]
  have "get_item_info ?lib ?self ''file:docs/a.txt''
       = ([\<lparr>uri_path = ''docs/a.txt'', headers = [(''Depth'', ''0'')],
            content = BUILD_PROPFIND_ALLPROPS\<rparr>],
          Inl (ValueError ''No response element found in PROPFIND response''))"
    by (simp only: p)
  with id none show ?thesis by (intro conjI)
qed


lemma not_truthy_cases: "\<not> truthy a \<Longrightarrow> a = None \<or> a = Some []"
  by (cases a) auto




text \<open>
  \<^bold>\<open>C8.\<close> When the lookup of the principal in the first answer raises \<open>ValueError\<close>
  (the specification's \<open>PropertyNotFound\<close>) and \<open>auth_result_extras\<close> has the non-empty
  username \<open>u\<close>, the second request is a \<open>PROPFIND\<close> with \<open>Depth: 0\<close> and the
  displayname body against the path \<open>remote.php/dav/files/u/\<close>, and the operation
  returns what \<open>_parse_displayname\<close> makes of its answer. For \<open>u = alice\<close> the path
  is \<open>remote.php/dav/files/alice/\<close>.
\<close>

theorem get_external_account_id_fallback_request:
  assumes net: "network self \<lparr>uri_path = strip_absolute_path [], headers = [(''Depth'', ''0'')],
                           content = BUILD_PROPFIND_CURRENT_USER_PRINCIPAL\<rparr> = Inr response_xml"
      and lookup: "parse_current_user_principal lib response_xml = Inl e"
      and v: "is_ValueError e"
      and extra: "auth_result_extras ''username'' = Some u"
      and u: "u \<noteq> []"
  shows "get_external_account_id lib self auth_result_extras =
           ([\<lparr>uri_path = strip_absolute_path [], headers = [(''Depth'', ''0'')],
              content = BUILD_PROPFIND_CURRENT_USER_PRINCIPAL\<rparr>,
             \<lparr>uri_path = ''remote.php/dav/files/'' @ u @ ''/'', headers = [(''Depth'', ''0'')],
              content = BUILD_PROPFIND_DISPLAYNAME\<rparr>],
            case network self \<lparr>uri_path = ''remote.php/dav/files/'' @ u @ ''/'',
                                headers = [(''Depth'', ''0'')],
                                content = BUILD_PROPFIND_DISPLAYNAME\<rparr> of
              Inl e \<Rightarrow> Inl e
            | Inr response_xml2 \<Rightarrow> parse_displayname lib response_xml2)"
proof -
  from extra u have o: "py_or (auth_result_extras ''username'') (fallback_username self) = Some u"
    by (simp add: py_or_def)
  have p: "strip_absolute_path (lstrip ''/'' (''/remote.php/dav/files/'' @ u @ ''/''))
             = ''remote.php/dav/files/'' @ u @ ''/''"
    by (simp add: strip_absolute_path_def lstrip_def)
  show ?thesis
    unfolding get_external_account_id_def Let_def
    by (simp only: net lookup v o u sum.case option.case if_True if_False p simp_thms)
       (simp split: sum.split)
qed

theorem get_external_account_id_fallback_request_witness:
  "parse_current_user_principal
       (python_stdlib (\<lambda>s. Inr (Element (DAV ''multistatus'') None []))) ''<multistatus/>''
     = Inl (ValueError ''current-user-principal not found in response'')
   \<and> is_ValueError (ValueError ''current-user-principal not found in response'')
   \<and> [''username'' \<mapsto> ''alice''] ''username'' = Some ''alice''
   \<and> ''alice'' \<noteq> []
   \<and> get_external_account_id (python_stdlib (\<lambda>s. Inr (Element (DAV ''multistatus'') None [])))
        (OwnCloudStorageImp_init ''https://host/remote.php/dav/files/u/'' (\<lambda>r. Inr ''<multistatus/>''))
        [''username'' \<mapsto> ''alice'']
       = ([\<lparr>uri_path = [], headers = [(''Depth'', ''0'')],
            content = BUILD_PROPFIND_CURRENT_USER_PRINCIPAL\<rparr>,
           \<lparr>uri_path = ''remote.php/dav/files/alice/'', headers = [(''Depth'', ''0'')],
            content = BUILD_PROPFIND_DISPLAYNAME\<rparr>],
          Inr ''default-name'')"
proof -
  let ?lib = "python_stdlib (\<lambda>s. Inr (Element (DAV ''multistatus'') None []))"
  let ?self = "OwnCloudStorageImp_init ''https://host/remote.php/dav/files/u/''
                 (\<lambda>r. Inr ''<multistatus/>'')"
  have net: "network ?self \<lparr>uri_path = strip_absolute_path [], headers = [(''Depth'', ''0'')],
               content = BUILD_PROPFIND_CURRENT_USER_PRINCIPAL\<rparr> = Inr ''<multistatus/>''"
    by (simp add: OwnCloudStorageImp_init_def)
  have lookup: "parse_current_user_principal ?lib ''<multistatus/>''
      = Inl (ValueError ''current-user-principal not found in response'')"
    by code_simp
  have v: "is_ValueError (ValueError ''current-user-principal not found in response'')"
    by simp
  have e: "[''username'' \<mapsto> ''alice''] ''username'' = Some ''alice''" by simp
  have u: "''alice'' \<noteq> []" by simp
  have p: "strip_absolute_path [] = []"
    by code_simp
  have n2: "network ?self \<lparr>uri_path = ''remote.php/dav/files/alice/'',
                              headers = [(''Depth'', ''0'')],
                              content = BUILD_PROPFIND_DISPLAYNAME\<rparr> = Inr ''<multistatus/>''"
    by (simp add: OwnCloudStorageImp_init_def)
  have d: "parse_displayname ?lib ''<multistatus/>'' = Inr ''default-name''"
    by code_simp
  have a: "''remote.php/dav/files/'' @ ''alice'' @ ''/'' = ''remote.php/dav/files/alice/''"
    by simp
  from get_external_account_id_fallback_request
         [where auth_result_extras = "[''username'' \<mapsto> ''alice'']", OF net lookup v e u]
  have "get_external_account_id ?lib ?self [''username'' \<mapsto> ''alice'']
       = ([\<lparr>uri_path = [], headers = [(''Depth'', ''0'')],
            content = BUILD_PROPFIND_CURRENT_USER_PRINCIPAL\<rparr>,
           \<lparr>uri_path = ''remote.php/dav/files/alice/'', headers = [(''Depth'', ''0'')],
            content = BUILD_PROPFIND_DISPLAYNAME\<rparr>],
          Inr ''default-name'')"
    by (simp only: n2 sum.case d p a)
  with lookup v e u show ?thesis by (intro conjI)
qed

subsection \<open>Listing children\<close>

lemma loop_skip_step:
  assumes "Element_find r [Child (DAV ''href'')] = None
           \<or> (\<exists>h. Element_find r [Child (DAV ''href'')] = Some h \<and> \<not> truthy (el_text h))"
  shows "list_child_items_loop lib self path want (r # rest) acc
           = list_child_items_loop lib self path want rest acc"
  using assms
proof
  assume "Element_find r [Child (DAV ''href'')] = None"
  then show ?thesis by simp
next
  assume "\<exists>h. Element_find r [Child (DAV ''href'')] = Some h \<and> \<not> truthy (el_text h)"
  then obtain h where h: "Element_find r [Child (DAV ''href'')] = Some h"
    and nt: "\<not> truthy (el_text h)" by blast
  from nt have "el_text h = None \<or> el_text h = Some []" by (rule not_truthy_cases)
  then show ?thesis
  proof
    assume "el_text h = None"
    with h show ?thesis by simp
  next
    assume "el_text h = Some []"
    with h show ?thesis by simp
  qed
qed

lemma loop_append:
  "list_child_items_loop lib self path want (xs @ ys) acc =
     (case list_child_items_loop lib self path want xs acc of
        Inl e \<Rightarrow> Inl e
      | Inr acc' \<Rightarrow> list_child_items_loop lib self path want ys acc')"
proof (induction xs arbitrary: acc want)
  case Nil
  show ?case by simp
next
  case (Cons r xs)
  show ?case
    by (simp add: Cons.IH Let_def split: option.split sum.split)
qed

lemma loop_skip:
  assumes "Element_find r [Child (DAV ''href'')] = None
           \<or> (\<exists>h. Element_find r [Child (DAV ''href'')] = Some h \<and> \<not> truthy (el_text h))"
  shows "list_child_items_loop lib self path want (before @ r # after) acc
           = list_child_items_loop lib self path want (before @ after) acc"
  by (simp only: loop_append loop_skip_step[OF assms])

lemma href_to_path_config:
  "external_api_url self' = external_api_url self \<Longrightarrow>
     href_to_path lib self' href = href_to_path lib self href"
  by (cases "urlparse lib (unquote lib href)") (simp_all add: href_to_path_def Let_def)

lemma loop_config:
  assumes "external_api_url self' = external_api_url self"
  shows "list_child_items_loop lib self' path want rs acc
           = list_child_items_loop lib self path want rs acc"
proof (induction rs arbitrary: acc want)
  case Nil
  show ?case by simp
next
  case (Cons r rs)
  show ?case
    by (simp add: Cons.IH href_to_path_config[OF assms] Let_def split: option.split sum.split)
qed

lemma findall_children:
  "Element_findall (Element t x cs) [Child tg] = filter (\<lambda>c. el_tag c = tg) cs"
  by (simp add: Element_findall_def)

lemma list_child_items_unfold:
  assumes id: "parse_item_id iid = Inr (ty, path)"
      and net: "network self \<lparr>uri_path = strip_absolute_path path, headers = [(''Depth'', ''1'')],
                              content = BUILD_PROPFIND_ALLPROPS\<rparr> = Inr response_xml"
      and xml: "fromstring lib response_xml = Inr root"
  shows "list_child_items lib self iid page_cursor want =
           ([\<lparr>uri_path = strip_absolute_path path, headers = [(''Depth'', ''1'')],
              content = BUILD_PROPFIND_ALLPROPS\<rparr>],
            case list_child_items_loop lib self path want
                   (Element_findall root [Child (DAV ''response'')]) [] of
              Inl e \<Rightarrow> Inl e
            | Inr found \<Rightarrow> Inr \<lparr>items = found\<rparr>)"
  unfolding list_child_items_def Let_def
  by (simp only: id net xml sum.case prod.case)

text \<open>
  \<^bold>\<open>C10.\<close> A response element whose \<open>d:href\<close> child is absent or has no text is
  skipped silently by \<open>list_child_items\<close>: an answer that has such an element among the
  children of its root and the answer without it give the same requests and the same
  result, page or exception, whatever the other elements are. The element adds no item
  and raises nothing.
\<close>

theorem list_child_items_skips_missing_href:
  assumes skip: "Element_find r [Child (DAV ''href'')] = None
           \<or> (\<exists>h. Element_find r [Child (DAV ''href'')] = Some h \<and> \<not> truthy (el_text h))"
      and id: "parse_item_id iid = Inr (ty, path)"
      and net: "network self \<lparr>uri_path = strip_absolute_path path, headers = [(''Depth'', ''1'')],
                              content = BUILD_PROPFIND_ALLPROPS\<rparr> = Inr response_xml"
      and xml: "fromstring lib response_xml = Inr (Element t x (before @ r # after))"
      and net': "network self' \<lparr>uri_path = strip_absolute_path path, headers = [(''Depth'', ''1'')],
                              content = BUILD_PROPFIND_ALLPROPS\<rparr> = Inr response_xml'"
      and xml': "fromstring lib response_xml' = Inr (Element t x (before @ after))"
      and url: "external_api_url self' = external_api_url self"
  shows "list_child_items lib self iid page_cursor want
           = list_child_items lib self' iid page_cursor want"
proof -
  let ?resp = "\<lambda>c. el_tag c = DAV ''response''"
  have "list_child_items_loop lib self path want (filter ?resp (before @ r # after)) []
          = list_child_items_loop lib self path want (filter ?resp (before @ after)) []"
  proof (cases "?resp r")
    case True
    then have "filter ?resp (before @ r # after) = filter ?resp before @ r # filter ?resp after"
      by simp
    then show ?thesis
      by (simp only: loop_skip[OF skip] filter_append)
  next
    case False
    then show ?thesis by simp
  qed
  also have "\<dots> = list_child_items_loop lib self' path want (filter ?resp (before @ after)) []"
    by (simp only: loop_config[OF url])
  finally show ?thesis
    by (simp only: list_child_items_unfold[OF id net xml] list_child_items_unfold[OF id net' xml']
          findall_children)
qed

theorem list_child_items_skips_missing_href_witness:
  "Element_find (Element (DAV ''response'') None [Element (DAV ''propstat'') None []])
       [Child (DAV ''href'')] = None
   \<and> parse_item_id ''folder:docs'' = Inr (FOLDER, ''docs'')
   \<and> list_child_items
        (python_stdlib (\<lambda>s. if s = ''one'' then
           Inr (Element (DAV ''multistatus'') None
             ([] @ Element (DAV ''response'') None [Element (DAV ''propstat'') None []] #
              [Element (DAV ''response'') None
                 [Element (DAV ''href'') (Some ''/remote.php/dav/files/u/docs/a.txt'') []]]))
           else
           Inr (Element (DAV ''multistatus'') None
             ([] @
              [Element (DAV ''response'') None
                 [Element (DAV ''href'') (Some ''/remote.php/dav/files/u/docs/a.txt'') []]]))))
        (OwnCloudStorageImp_init ''https://host/remote.php/dav/files/u/'' (\<lambda>r. Inr ''one''))
        ''folder:docs'' [] None
     = list_child_items
        (python_stdlib (\<lambda>s. if s = ''one'' then
           Inr (Element (DAV ''multistatus'') None
             ([] @ Element (DAV ''response'') None [Element (DAV ''propstat'') None []] #
              [Element (DAV ''response'') None
                 [Element (DAV ''href'') (Some ''/remote.php/dav/files/u/docs/a.txt'') []]]))
           else
           Inr (Element (DAV ''multistatus'') None
             ([] @
              [Element (DAV ''response'') None
                 [Element (DAV ''href'') (Some ''/remote.php/dav/files/u/docs/a.txt'') []]]))))
        (OwnCloudStorageImp_init ''https://host/remote.php/dav/files/u/'' (\<lambda>r. Inr ''two''))
        ''folder:docs'' [] None
   \<and> list_child_items
        (python_stdlib (\<lambda>s. if s = ''one'' then
           Inr (Element (DAV ''multistatus'') None
             ([] @ Element (DAV ''response'') None [Element (DAV ''propstat'') None []] #
              [Element (DAV ''response'') None
                 [Element (DAV ''href'') (Some ''/remote.php/dav/files/u/docs/a.txt'') []]]))
           else
           Inr (Element (DAV ''multistatus'') None
             ([] @
              [Element (DAV ''response'') None
                 [Element (DAV ''href'') (Some ''/remote.php/dav/files/u/docs/a.txt'') []]]))))
        (OwnCloudStorageImp_init ''https://host/remote.php/dav/files/u/'' (\<lambda>r. Inr ''one''))
        ''folder:docs'' [] None
     = ([\<lparr>uri_path = ''docs'', headers = [(''Depth'', ''1'')], content = BUILD_PROPFIND_ALLPROPS\<rparr>],
        Inr \<lparr>items = [\<lparr>item_id = ''file:docs/a.txt'', item_name = ''a.txt'', item_type = FILE\<rparr>]\<rparr>)"
proof -
  let ?r = "Element (DAV ''response'') None [Element (DAV ''propstat'') None []]"
  let ?after = "[Element (DAV ''response'') None
                 [Element (DAV ''href'') (Some ''/remote.php/dav/files/u/docs/a.txt'') []]]"
  let ?lib = "python_stdlib (\<lambda>s. if s = ''one'' then
           Inr (Element (DAV ''multistatus'') None ([] @ ?r # ?after))
           else Inr (Element (DAV ''multistatus'') None ([] @ ?after)))"
  let ?self = "OwnCloudStorageImp_init ''https://host/remote.php/dav/files/u/'' (\<lambda>r. Inr ''one'')"
  let ?self' = "OwnCloudStorageImp_init ''https://host/remote.php/dav/files/u/'' (\<lambda>r. Inr ''two'')"
  let ?request = "\<lparr>uri_path = strip_absolute_path ''docs'', headers = [(''Depth'', ''1'')],
                    content = BUILD_PROPFIND_ALLPROPS\<rparr>"
  have none: "Element_find ?r [Child (DAV ''href'')] = None"
    by code_simp
  then have skip: "Element_find ?r [Child (DAV ''href'')] = None
      \<or> (\<exists>h. Element_find ?r [Child (DAV ''href'')] = Some h \<and> \<not> truthy (el_text h))" ..
  have id: "parse_item_id ''folder:docs'' = Inr (FOLDER, ''docs'')"
    by code_simp
  have net: "network ?self ?request = Inr ''one''"
    by (simp add: OwnCloudStorageImp_init_def)
  have xml: "fromstring ?lib ''one'' = Inr (Element (DAV ''multistatus'') None ([] @ ?r # ?after))"
    by (simp add: python_stdlib_def)
  have net': "network ?self' ?request = Inr ''two''"
    by (simp add: OwnCloudStorageImp_init_def)
  have xml': "fromstring ?lib ''two'' = Inr (Element (DAV ''multistatus'') None ([] @ ?after))"
    by (simp add: python_stdlib_def)
  have url: "external_api_url ?self' = external_api_url ?self"
    by (simp add: OwnCloudStorageImp_init_def)
  have same: "list_child_items ?lib ?self ''folder:docs'' [] None
                = list_child_items ?lib ?self' ''folder:docs'' [] None"
    by (rule list_child_items_skips_missing_href[OF skip id net xml net' xml' url])
  have val: "list_child_items ?lib ?self ''folder:docs'' [] None
     = ([\<lparr>uri_path = ''docs'', headers = [(''Depth'', ''1'')], content = BUILD_PROPFIND_ALLPROPS\<rparr>],
        Inr \<lparr>items = [\<lparr>item_id = ''file:docs/a.txt'', item_name = ''a.txt'', item_type = FILE\<rparr>]\<rparr>)"
    by code_simp
  from none id same val show ?thesis by (intro conjI)
qed

lemma item_id_parse_response_element:
  "parse_item_id (item_id (parse_response_element r p)) =
     Inr (item_type (parse_response_element r p), p)"
  by (simp add: parse_response_element_def Let_def parse_make_item_id)

lemma loop_items:
  assumes "list_child_items_loop lib self path want rs acc = Inr found"
      and "item \<in> set found"
  shows "item \<in> set acc
         \<or> (\<exists>r p. item = parse_response_element r p \<and> rstrip ''/'' p \<noteq> rstrip ''/'' path)"
  using assms
proof (induction rs arbitrary: acc)
  case Nil
  then show ?case by simp
next
  case (Cons r rs)
  show ?case
  proof (cases "Element_find r [Child (DAV ''href'')]")
    case None
    with Cons.prems have "list_child_items_loop lib self path want rs acc = Inr found" by simp
    from Cons.IH[OF this Cons.prems(2)] show ?thesis .
  next
    case h: (Some href_element)
    show ?thesis
    proof (cases "el_text href_element")
      case None
      with h Cons.prems have "list_child_items_loop lib self path want rs acc = Inr found" by simp
      from Cons.IH[OF this Cons.prems(2)] show ?thesis .
    next
      case t: (Some href)
      show ?thesis
      proof (cases "href = []")
        case True
        with h t Cons.prems have "list_child_items_loop lib self path want rs acc = Inr found"
          by simp
        from Cons.IH[OF this Cons.prems(2)] show ?thesis .
      next
        case ne: False
        show ?thesis
        proof (cases "href_to_path lib self href")
          case (Inl e)
          with h t ne Cons.prems show ?thesis by simp
        next
          case p: (Inr item_path)
          show ?thesis
          proof (cases "rstrip ''/'' item_path = rstrip ''/'' path")
            case True
            with h t ne p Cons.prems
            have "list_child_items_loop lib self path want rs acc = Inr found" by simp
            from Cons.IH[OF this Cons.prems(2)] show ?thesis .
          next
            case other: False
            let ?item = "parse_response_element r item_path"
            show ?thesis
            proof (cases "want \<noteq> None \<and> Some (item_type ?item) \<noteq> want")
              case True
              with h t ne p other Cons.prems
              have "list_child_items_loop lib self path want rs acc = Inr found"
                by (auto simp: Let_def split: if_splits)
              from Cons.IH[OF this Cons.prems(2)] show ?thesis .
            next
              case False
              with h t ne p other Cons.prems
              have "list_child_items_loop lib self path want rs (acc @ [?item]) = Inr found"
                by (auto simp: Let_def split: if_splits)
              from Cons.IH[OF this Cons.prems(2)]
              have "item \<in> set (acc @ [?item])
                \<or> (\<exists>r p. item = parse_response_element r p
                          \<and> rstrip ''/'' p \<noteq> rstrip ''/'' path)" .
              with other show ?thesis by auto
            qed
          qed
        qed
      qed
    qed
  qed
qed

lemma rstrip_idem: "rstrip cs (rstrip cs s) = rstrip cs s"
proof (cases "rstrip cs s = []")
  case True
  then show ?thesis by (simp add: rstrip_def)
next
  case False
  with rstrip_last[of cs s] have "last (rstrip cs s) \<notin> set cs" by simp
  with False have "dropWhile (\<lambda>c. c \<in> set cs) (rev (rstrip cs s)) = rev (rstrip cs s)"
    by (cases "rev (rstrip cs s)") (auto simp: last_rev[symmetric] simp del: last_rev)
  then show ?thesis by (simp add: rstrip_def[of cs "rstrip cs s"])
qed

text \<open>
  What the comparison in the loop gives for every call: each item of a returned page has
  an identifier that decodes to a path which, trimmed of its trailing slashes, differs
  from the queried path, and from the queried path trimmed likewise.
\<close>

lemma list_child_items_excludes_equal_paths:
  assumes run: "list_child_items lib self iid page_cursor want = (requests, Inr page)"
      and id: "parse_item_id iid = Inr (ty, path)"
      and item: "item \<in> set (items page)"
  shows "\<exists>t p. parse_item_id (item_id item) = Inr (t, p)
           \<and> rstrip ''/'' p \<noteq> rstrip ''/'' path \<and> rstrip ''/'' p \<noteq> path"
proof -
  let ?request = "\<lparr>uri_path = strip_absolute_path path, headers = [(''Depth'', ''1'')],
                    content = BUILD_PROPFIND_ALLPROPS\<rparr>"
  obtain response_xml where net: "network self ?request = Inr response_xml"
    using run id by (cases "network self ?request") (simp_all add: list_child_items_def Let_def)
  obtain root where xml: "fromstring lib response_xml = Inr root"
    using run id net by (cases "fromstring lib response_xml") (simp_all add: list_child_items_def Let_def)
  let ?rs = "Element_findall root [Child (DAV ''response'')]"
  from run list_child_items_unfold[OF id net xml, of page_cursor want]
  have "(case list_child_items_loop lib self path want ?rs [] of
            Inl e \<Rightarrow> Inl e | Inr found \<Rightarrow> Inr \<lparr>items = found\<rparr>) = Inr page"
    by simp
  then obtain found where loop: "list_child_items_loop lib self path want ?rs [] = Inr found"
    and page: "page = \<lparr>items = found\<rparr>"
    by (cases "list_child_items_loop lib self path want ?rs []") auto
  from item page have "item \<in> set found" by simp
  from loop_items[OF loop this] obtain r p where
    r: "item = parse_response_element r p" and other: "rstrip ''/'' p \<noteq> rstrip ''/'' path"
    by auto
  have "rstrip ''/'' p \<noteq> path"
  proof
    assume "rstrip ''/'' p = path"
    then have "rstrip ''/'' (rstrip ''/'' p) = rstrip ''/'' path" by simp
    with other show False by (simp only: rstrip_idem)
  qed
  with r other item_id_parse_response_element[of r p] show ?thesis by blast
qed

text \<open>
  \<^bold>\<open>C6.\<close> The specification has \<open>list_child_items\<close> leave the container's own
  response element out of every page. The code sends the request for the queried path
  without its leading slashes (\<open>relative_path\<close>) but compares the path of each response
  element with the queried path as the identifier gives it (\<open>path\<close>). For the
  identifier \<open>folder:/docs\<close> the request goes to \<open>docs\<close>, the container's element
  gets the path \<open>docs\<close>, which is not \<open>/docs\<close>, and the container is returned as its
  own child \<open>folder:docs\<close>. For the identifier \<open>folder:docs\<close> the same request and
  the same answer give the file alone.
\<close>

theorem list_child_items_leading_slash_lists_container:
  "list_child_items
      (python_stdlib (\<lambda>s. Inr (Element (DAV ''multistatus'') None
         [Element (DAV ''response'') None
            [Element (DAV ''href'') (Some ''/remote.php/dav/files/u/docs/'') [],
             Element (DAV ''propstat'') None
               [Element (DAV ''prop'') None
                  [Element (DAV ''resourcetype'') None [Element (DAV ''collection'') None []]]]],
          Element (DAV ''response'') None
            [Element (DAV ''href'') (Some ''/remote.php/dav/files/u/docs/a.txt'') [],
             Element (DAV ''propstat'') None
               [Element (DAV ''prop'') None [Element (DAV ''resourcetype'') None []]]]])))
      (OwnCloudStorageImp_init ''https://host/remote.php/dav/files/u/'' (\<lambda>r. Inr ''<multistatus/>''))
      ''folder:/docs'' [] None
     = ([\<lparr>uri_path = ''docs'', headers = [(''Depth'', ''1'')], content = BUILD_PROPFIND_ALLPROPS\<rparr>],
        Inr \<lparr>items = [\<lparr>item_id = ''folder:docs'', item_name = ''docs'', item_type = FOLDER\<rparr>,
                       \<lparr>item_id = ''file:docs/a.txt'', item_name = ''a.txt'', item_type = FILE\<rparr>]\<rparr>)
   \<and> list_child_items
      (python_stdlib (\<lambda>s. Inr (Element (DAV ''multistatus'') None
         [Element (DAV ''response'') None
            [Element (DAV ''href'') (Some ''/remote.php/dav/files/u/docs/'') [],
             Element (DAV ''propstat'') None
               [Element (DAV ''prop'') None
                  [Element (DAV ''resourcetype'') None [Element (DAV ''collection'') None []]]]],
          Element (DAV ''response'') None
            [Element (DAV ''href'') (Some ''/remote.php/dav/files/u/docs/a.txt'') [],
             Element (DAV ''propstat'') None
               [Element (DAV ''prop'') None [Element (DAV ''resourcetype'') None []]]]])))
      (OwnCloudStorageImp_init ''https://host/remote.php/dav/files/u/'' (\<lambda>r. Inr ''<multistatus/>''))
      ''folder:docs'' [] None
     = ([\<lparr>uri_path = ''docs'', headers = [(''Depth'', ''1'')], content = BUILD_PROPFIND_ALLPROPS\<rparr>],
        Inr \<lparr>items = [\<lparr>item_id = ''file:docs/a.txt'', item_name = ''a.txt'', item_type = FILE\<rparr>]\<rparr>)"
  by code_simp

end
